theory Spec2Isabelle
  imports Complex_Main "HOL-Library.Log_Nat"
begin

section \<open>Shared data model\<close>

text \<open>
  The order lifecycle coordinator of the food-delivery backend: the order status
  operation of \<^verbatim>\<open>app/service/order_service.py\<close>, the Celery jobs of
  \<^verbatim>\<open>app/task/order_task.py\<close> and \<^verbatim>\<open>app/task/payment_task.py\<close>, the
  payment service, the Stripe webhook endpoint and the websocket connection manager.

  Conventions of the embedding.
  \<^item> A table is the list of its rows; a SQLAlchemy model is a record whose fields carry the
    column names behind a prefix (\<open>o_\<close> for Order, \<open>p_\<close> for Payment, \<open>oi_\<close> for OrderItem,
    \<open>r_\<close> for Restaurant, \<open>mi_\<close> for MenuItem), since field names are global constants.
  \<^item> A \<^verbatim>\<open>datetime\<close> is a number of seconds; each clock the code reads
    (\<^verbatim>\<open>datetime.utcnow()\<close>, \<^verbatim>\<open>datetime.now()\<close>, the database's \<^verbatim>\<open>now()\<close>)
    is an argument of the function that reads it.
  \<^item> A Python \<^verbatim>\<open>float\<close> is the rational number it denotes.
  \<^item> A raised exception is a value \<open>Inl e\<close>; a function that touches the session returns the
    committed table next to its result, so that a failed call shows what it left behind.
\<close>

type_synonym datetime = int

datatype py_error =
    NotFoundException
  | ValidationException
  | TypeError
  | AttributeError
  | KeyError
  | ValueError
  | LookupError
  | StripeError
  | SignatureVerificationError
  | OperationalError
  | EncodeError

text \<open>\<^verbatim>\<open>OrderStatus\<close> of \<^verbatim>\<open>app/models/order.py\<close>.\<close>

datatype order_status =
    PENDING
  | CONFIRMED
  | PREPARING
  | READY_FOR_PICKUP
  | OUT_FOR_DELIVERY
  | DELIVERED
  | CANCELLED
  | REFUNDED

text \<open>The four-valued \<^verbatim>\<open>PaymentStatus\<close> that \<^verbatim>\<open>app/models/order.py\<close> declares for the
  \<^verbatim>\<open>payment_status\<close> column of an order.\<close>

datatype order_payment_status = OP_PENDING | OP_COMPLETED | OP_FAILED | OP_REFUNDED

text \<open>The \<^verbatim>\<open>Order\<close> model, column by column. It has no version column.\<close>

record order =
  o_id :: int
  o_order_number :: string
  o_customer_id :: int
  o_restaurant_id :: int
  o_delivery_partner_id :: "int option"
  o_status :: order_status
  o_payment_status :: order_payment_status
  o_subtotal :: rat
  o_delivery_fee :: rat
  o_tax_amount :: rat
  o_discount_amount :: rat
  o_total_amount :: rat
  o_delivery_address :: string
  o_delivery_latitude :: "rat option"
  o_delivery_longitude :: "rat option"
  o_delivery_instructions :: "string option"
  o_estimated_delivery_time :: "datetime option"
  o_prepared_at :: "datetime option"
  o_picked_up_at :: "datetime option"
  o_delivered_at :: "datetime option"
  o_cancelled_at :: "datetime option"
  o_created_at :: datetime
  o_updated_at :: datetime

section \<open>The order status operation\<close>

text \<open>\<^verbatim>\<open>OrderService.get_order_by_id\<close>: \<^verbatim>\<open>query(Order).filter(Order.id == order_id).first()\<close>.\<close>

definition get_order_by_id :: "order list \<Rightarrow> int \<Rightarrow> order option" where
  "get_order_by_id db order_id = find (\<lambda>row. o_id row = order_id) db"

text \<open>The dictionary \<^verbatim>\<open>valid_transitions\<close> of \<^verbatim>\<open>OrderService.update_order_status\<close>, with the
  keys and lists in the order of the source. DELIVERED, CANCELLED and REFUNDED are no keys.\<close>

definition valid_transitions :: "(order_status \<times> order_status list) list" where
  "valid_transitions =
     [(PENDING, [CONFIRMED, CANCELLED]),
      (CONFIRMED, [PREPARING, CANCELLED]),
      (PREPARING, [READY_FOR_PICKUP, CANCELLED]),
      (READY_FOR_PICKUP, [OUT_FOR_DELIVERY]),
      (OUT_FOR_DELIVERY, [DELIVERED])]"

text \<open>The test that raises: \<^verbatim>\<open>if order.status in valid_transitions:\<close> and inside it
  \<^verbatim>\<open>if new_status not in valid_transitions[order.status]:\<close>.\<close>

definition transition_refused :: "order_status \<Rightarrow> order_status \<Rightarrow> bool" where
  "transition_refused current new_status =
     (case map_of valid_transitions current of
        None \<Rightarrow> False
      | Some allowed \<Rightarrow> new_status \<notin> set allowed)"

text \<open>The \<^verbatim>\<open>if\<close>/\<^verbatim>\<open>elif\<close> chain that stamps a timestamp after the status is written.\<close>

definition stamp_timestamp :: "order_status \<Rightarrow> datetime \<Rightarrow> order \<Rightarrow> order" where
  "stamp_timestamp new_status now order =
     (if new_status = PREPARING then order\<lparr>o_prepared_at := Some now\<rparr>
      else if new_status = OUT_FOR_DELIVERY then order\<lparr>o_picked_up_at := Some now\<rparr>
      else if new_status = DELIVERED then order\<lparr>o_delivered_at := Some now\<rparr>
      else if new_status = CANCELLED then order\<lparr>o_cancelled_at := Some now\<rparr>
      else order)"

text \<open>\<^verbatim>\<open>db.commit()\<close> for one loaded order: the session writes the row back under its
  primary key, with no condition on any other column; when a column has changed the UPDATE also
  sets \<^verbatim>\<open>updated_at\<close> (\<^verbatim>\<open>onupdate=func.now()\<close>) to the database clock.\<close>

definition flush_order :: "datetime \<Rightarrow> order \<Rightarrow> order \<Rightarrow> order" where
  "flush_order db_now loaded order =
     (if order = loaded then loaded else order\<lparr>o_updated_at := db_now\<rparr>)"

definition write_order :: "order list \<Rightarrow> order \<Rightarrow> order list" where
  "write_order db order = map (\<lambda>row. if o_id row = o_id order then order else row) db"

text \<open>\<^verbatim>\<open>OrderService.update_order_status(order_id, new_status, updated_by_id)\<close>. The result is
  the returned order or the exception raised, and the committed table.\<close>

definition update_order_status ::
  "order list \<Rightarrow> datetime \<Rightarrow> datetime \<Rightarrow> int \<Rightarrow> order_status \<Rightarrow> int \<Rightarrow> (py_error + order) \<times> order list"
where
  "update_order_status db now db_now order_id new_status updated_by_id =
     (case get_order_by_id db order_id of
        None \<Rightarrow> (Inl NotFoundException, db)
      | Some order \<Rightarrow>
          if transition_refused (o_status order) new_status
          then (Inl ValidationException, db)
          else
            let order' = flush_order db_now order
                           (stamp_timestamp new_status now (order\<lparr>o_status := new_status\<rparr>))
            in (Inr order', write_order db order'))"

text \<open>The legal transition graph as the specification lists it (section 4.1), to compare the
  dictionary of the code with.\<close>

fun legal_transition :: "order_status \<Rightarrow> order_status \<Rightarrow> bool" where
  "legal_transition PENDING t = (t = CONFIRMED \<or> t = CANCELLED)"
| "legal_transition CONFIRMED t = (t = PREPARING \<or> t = CANCELLED)"
| "legal_transition PREPARING t = (t = READY_FOR_PICKUP \<or> t = CANCELLED)"
| "legal_transition READY_FOR_PICKUP t = (t = OUT_FOR_DELIVERY)"
| "legal_transition OUT_FOR_DELIVERY t = (t = DELIVERED)"
| "legal_transition DELIVERED t = False"
| "legal_transition CANCELLED t = False"
| "legal_transition REFUNDED t = False"

definition terminal :: "order_status \<Rightarrow> bool" where
  "terminal s = (s = DELIVERED \<or> s = CANCELLED \<or> s = REFUNDED)"

section \<open>Python floats\<close>

text \<open>
  The money columns are \<^verbatim>\<open>Float\<close> columns and the helpers compute on Python floats, that
  is on IEEE-754 binary64 numbers. A finite double is a rational number, and an arithmetic
  operation on doubles is the exact operation followed by rounding to the nearest double, ties
  to the even mantissa. \<open>fl\<close> is that rounding, for results in the normal range of the
  format (53 significant bits; overflow, subnormal numbers, infinities and NaN are outside the
  model).
\<close>

definition round_half_even :: "rat \<Rightarrow> int" where
  "round_half_even z =
     (let n = \<lfloor>z\<rfloor>; r = z - of_int n
      in if r < 1 / 2 then n else if 1 / 2 < r then n + 1 else if even n then n else n + 1)"

text \<open>The binary exponent of a positive rational \<open>a\<close>: the \<open>e\<close> with \<open>2^e \<le> a < 2^(e+1)\<close>.\<close>

definition float_exponent :: "rat \<Rightarrow> int" where
  "float_exponent a = (if 1 \<le> a then bitlen \<lfloor>a\<rfloor> - 1 else - bitlen (\<lceil>1 / a\<rceil> - 1))"

definition fl :: "rat \<Rightarrow> rat" where
  "fl x =
     (if x = 0 then 0
      else let u = 2 powi (float_exponent \<bar>x\<bar> - 52)
           in sgn x * of_int (round_half_even (\<bar>x\<bar> / u)) * u)"

definition float_add :: "rat \<Rightarrow> rat \<Rightarrow> rat" where
  "float_add x y = fl (x + y)"

definition float_sub :: "rat \<Rightarrow> rat \<Rightarrow> rat" where
  "float_sub x y = fl (x - y)"

definition float_mul :: "rat \<Rightarrow> rat \<Rightarrow> rat" where
  "float_mul x y = fl (x * y)"

text \<open>\<^verbatim>\<open>round(x, 2)\<close> on a float: the decimal with two places nearest to the exact value of
  \<open>x\<close> (ties to the even digit), then the double nearest to that decimal.\<close>

definition py_round2 :: "rat \<Rightarrow> rat" where
  "py_round2 x = fl (of_int (round_half_even (x * 100)) / 100)"

text \<open>\<^verbatim>\<open>int(x)\<close> on a float truncates towards zero.\<close>

definition py_int :: "rat \<Rightarrow> int" where
  "py_int x = (if 0 \<le> x then \<lfloor>x\<rfloor> else \<lceil>x\<rceil>)"


section \<open>The task queue\<close>

text \<open>
  A job payload is JSON. \<open>JColumn\<close> stands for an ORM column object such as
  \<^verbatim>\<open>Order.order_number\<close> read from the class, which is no JSON value.
  A notification is a dictionary, kept as the list of its items in the order written.
\<close>

datatype json =
    JNull
  | JInt int
  | JNum rat
  | JStr string
  | JTime datetime
  | JColumn string
  | JDict "(string \<times> json) list"

record task =
  task_name :: string
  task_args :: "json list"

text \<open>Whether \<^verbatim>\<open>json.dumps\<close> accepts a value.\<close>

fun json_serialisable :: "json \<Rightarrow> bool" where
  "json_serialisable (JColumn c) = False"
| "json_serialisable (JDict items) = list_all (\<lambda>item. json_serialisable (snd item)) items"
| "json_serialisable v = True"

text \<open>\<^verbatim>\<open>current_app.send_task(name, args=[...])\<close> appends a job for the task of that name.
  The application is configured with \<^verbatim>\<open>task_serializer="json"\<close>
  (\<^verbatim>\<open>app/task/celery_app.py\<close>): the arguments are serialised when the message is
  published, and an argument that is no JSON value raises \<^verbatim>\<open>EncodeError\<close> with nothing
  sent.\<close>

definition send_task :: "string \<Rightarrow> json list \<Rightarrow> task list \<Rightarrow> py_error + task list" where
  "send_task name args queue =
     (if list_all json_serialisable args
      then Inr (queue @ [\<lparr>task_name = name, task_args = args\<rparr>])
      else Inl EncodeError)"



text \<open>The \<^verbatim>\<open>.value\<close> of an \<^verbatim>\<open>OrderStatus\<close> member.\<close>

fun status_value :: "order_status \<Rightarrow> string" where
  "status_value PENDING = ''pending''"
| "status_value CONFIRMED = ''confirmed''"
| "status_value PREPARING = ''preparing''"
| "status_value READY_FOR_PICKUP = ''ready_for_pickup''"
| "status_value OUT_FOR_DELIVERY = ''out_for_delivery''"
| "status_value DELIVERED = ''delivered''"
| "status_value CANCELLED = ''cancelled''"
| "status_value REFUNDED = ''refunded''"

section \<open>Payments\<close>

text \<open>\<^verbatim>\<open>PaymentMethod\<close>, \<^verbatim>\<open>PaymentStatus\<close> and \<^verbatim>\<open>Payment\<close> of
  \<^verbatim>\<open>app/models/payment.py\<close>.\<close>

datatype payment_method = CREDIT_CARD | DEBIT_CARD | DIGITAL_WALLET | CASH_ON_DELIVERY

datatype payment_status =
    PAY_PENDING
  | PAY_PROCESSING
  | PAY_COMPLETED
  | PAY_FAILED
  | PAY_CANCELLED
  | PAY_REFUNDED

record payment =
  p_id :: int
  p_user_id :: int
  p_order_id :: int
  p_stripe_payment_intent_id :: "string option"
  p_amount :: rat
  p_currency :: string
  p_method :: payment_method
  p_status :: payment_status
  p_failure_reason :: "string option"
  p_refund_amount :: rat
  p_refunded_at :: "datetime option"
  p_created_at :: datetime
  p_updated_at :: datetime

text \<open>Committing one loaded payment, as for an order: an unconditional write under the
  primary key, with \<^verbatim>\<open>updated_at\<close> set by the database when a column has changed.\<close>

definition flush_payment :: "datetime \<Rightarrow> payment \<Rightarrow> payment \<Rightarrow> payment" where
  "flush_payment db_now loaded payment =
     (if payment = loaded then loaded else payment\<lparr>p_updated_at := db_now\<rparr>)"

definition write_payment :: "payment list \<Rightarrow> payment \<Rightarrow> payment list" where
  "write_payment db payment = map (\<lambda>row. if p_id row = p_id payment then payment else row) db"


type_synonym stripe_refund = "string \<Rightarrow> int \<Rightarrow> string + string"







text \<open>\<^verbatim>\<open>payment_service.py\<close> imports the module (\<^verbatim>\<open>import datetime\<close>), not the class, so
  its \<^verbatim>\<open>datetime.utcnow()\<close> looks \<^verbatim>\<open>utcnow\<close> up in the module, which has no such
  attribute: the expression raises \<^verbatim>\<open>AttributeError\<close>.\<close>

definition module_datetime_utcnow :: "py_error + datetime" where
  "module_datetime_utcnow = Inl AttributeError"

text \<open>\<^verbatim>\<open>PaymentService.process_refund(payment, refund_amount)\<close>: the returned flag or the
  exception that leaves the method, the payment object after the call, the committed table, and
  the refunds requested from the provider (intent id and amount in cents).
  The payment's status is not read. Only \<^verbatim>\<open>StripeError\<close> is caught.\<close>

definition process_refund ::
  "stripe_refund \<Rightarrow> datetime \<Rightarrow> payment list \<Rightarrow> payment \<Rightarrow> rat option
     \<Rightarrow> (py_error + bool) \<times> payment \<times> payment list \<times> (string \<times> int) list"
where
  "process_refund refund_create db_now db payment refund_amount =
     (case p_stripe_payment_intent_id payment of
        None \<Rightarrow> (Inr False, payment, db, [])
      | Some intent_id \<Rightarrow>
          if intent_id = [] then (Inr False, payment, db, [])
          else
            let amount_to_refund =
                  (case refund_amount of
                     None \<Rightarrow> p_amount payment
                   | Some r \<Rightarrow> if r = 0 then p_amount payment else r);
                amount_cents = py_int (float_mul amount_to_refund 100);
                requested = [(intent_id, amount_cents)]
            in case refund_create intent_id amount_cents of
                 Inl message \<Rightarrow> (Inr False, payment, db, requested)
               | Inr refund_status \<Rightarrow>
                   if refund_status = ''succeeded'' then
                     let payment' = payment\<lparr>p_status := PAY_REFUNDED,
                                            p_refund_amount := amount_to_refund\<rparr>
                     in case module_datetime_utcnow of
                          Inl e \<Rightarrow> (Inl e, payment', db, requested)
                        | Inr now \<Rightarrow>
                            let payment'' = flush_payment db_now payment
                                  (payment'\<lparr>p_refunded_at := Some now\<rparr>)
                            in (Inr True, payment'', write_payment db payment'', requested)
                   else (Inr False, payment, db, requested))"

section \<open>The payment webhook\<close>







section \<open>The connection manager\<close>

text \<open>
  \<^verbatim>\<open>ConnectionManager\<close> of \<^verbatim>\<open>app/utils/websocket_manager.py\<close>. A websocket object is
  known by its identity, a number. \<^verbatim>\<open>user_connection\<close> is a dictionary from user ids to
  websockets; its keys are written with their Python type, because \<^verbatim>\<open>connect\<close> looks the
  role, a string, up among them.
\<close>

type_synonym websocket = nat

datatype dict_key = IntKey int | StrKey string

record connection_manager =
  user_connection :: "dict_key \<rightharpoonup> websocket"
  role_connection :: "string \<rightharpoonup> websocket list"

text \<open>The manager as \<^verbatim>\<open>__init__\<close> builds it.\<close>

definition ConnectionManager :: connection_manager where
  "ConnectionManager =
     \<lparr>user_connection = Map.empty,
      role_connection = [''customer'' \<mapsto> [], ''restaurant_owner'' \<mapsto> [],
                         ''delivery_partner'' \<mapsto> [], ''admin'' \<mapsto> []]\<rparr>"

text \<open>\<^verbatim>\<open>connect(websocket, user_id, user_role)\<close>, from the point where
  \<^verbatim>\<open>websocket.accept()\<close> has returned. The assignment to \<^verbatim>\<open>user_connection[user_id]\<close>
  comes first; the role list is appended to only when \<^verbatim>\<open>user_role in self.user_connection\<close>,
  and \<^verbatim>\<open>self.role_connection[user_role]\<close> raises \<^verbatim>\<open>KeyError\<close> for an unknown role.\<close>

definition connect ::
  "connection_manager \<Rightarrow> websocket \<Rightarrow> int \<Rightarrow> string \<Rightarrow> (py_error + unit) \<times> connection_manager"
where
  "connect m websocket user_id user_role =
     (let m' = m\<lparr>user_connection := (user_connection m)(IntKey user_id \<mapsto> websocket)\<rparr>
      in if StrKey user_role \<in> dom (user_connection m') then
           (case role_connection m' user_role of
              None \<Rightarrow> (Inl KeyError, m')
            | Some members \<Rightarrow>
                (Inr (),
                 m'\<lparr>role_connection := (role_connection m')(user_role \<mapsto> members @ [websocket])\<rparr>))
         else (Inr (), m'))"

text \<open>\<^verbatim>\<open>send_personal_msg(msg, user_id)\<close>: the manager after the call and the
  \<^verbatim>\<open>send_text\<close> calls made, each with the websocket written to. \<open>send_ok\<close> says whether
  \<^verbatim>\<open>send_text\<close> returns; when it raises, or \<^verbatim>\<open>json.dumps\<close> does, the user's entry is
  popped.\<close>

definition send_personal_msg ::
  "bool \<Rightarrow> connection_manager \<Rightarrow> json \<Rightarrow> int \<Rightarrow> connection_manager \<times> (websocket \<times> json) list"
where
  "send_personal_msg send_ok m msg user_id =
     (case user_connection m (IntKey user_id) of
        None \<Rightarrow> (m, [])
      | Some websocket \<Rightarrow>
          if \<not> json_serialisable msg
          then (m\<lparr>user_connection := (user_connection m)(IntKey user_id := None)\<rparr>, [])
          else if send_ok then (m, [(websocket, msg)])
          else (m\<lparr>user_connection := (user_connection m)(IntKey user_id := None)\<rparr>,
                [(websocket, msg)]))"

text \<open>A run of \<^verbatim>\<open>send_personal_msg\<close> calls for one user, each message with the outcome of
  its \<^verbatim>\<open>send_text\<close>: the manager at the end and all writes in order.\<close>

fun send_sequence ::
  "connection_manager \<Rightarrow> (json \<times> bool) list \<Rightarrow> int \<Rightarrow> connection_manager \<times> (websocket \<times> json) list"
where
  "send_sequence m [] user_id = (m, [])"
| "send_sequence m ((msg, send_ok) # rest) user_id =
     (case send_personal_msg send_ok m msg user_id of
        (m', written) \<Rightarrow>
          (case send_sequence m' rest user_id of
             (m'', written') \<Rightarrow> (m'', written @ written')))"

section \<open>Order creation\<close>

text \<open>\<^verbatim>\<open>calculate_tax\<close> and \<^verbatim>\<open>calculate_order_total\<close> of the helpers
  (\<^verbatim>\<open>app/utils/__init__.py\<close>); the dictionary returned is a record.\<close>

definition calculate_tax :: "rat \<Rightarrow> rat \<Rightarrow> rat" where
  "calculate_tax subtotal tax_rate = py_round2 (float_mul subtotal tax_rate)"

record order_total =
  t_subtotal :: rat
  t_delivery_fee :: rat
  t_tax_amount :: rat
  t_discount_amount :: rat
  t_total_amount :: rat

definition calculate_order_total :: "rat \<Rightarrow> rat \<Rightarrow> rat \<Rightarrow> rat \<Rightarrow> order_total" where
  "calculate_order_total subtotal delivery_fee tax_rate discount_amount =
     (let tax_amount = calculate_tax subtotal tax_rate;
          total = float_sub (float_add (float_add subtotal delivery_fee) tax_amount) discount_amount
      in \<lparr>t_subtotal = py_round2 subtotal,
          t_delivery_fee = py_round2 delivery_fee,
          t_tax_amount = py_round2 tax_amount,
          t_discount_amount = py_round2 discount_amount,
          t_total_amount = py_round2 total\<rparr>)"

text \<open>
  The identity of the money fields that the specification asks of an order, read at the
  currency precision: \<^verbatim>\<open>total_amount\<close> is the sum
  \<^verbatim>\<open>subtotal + delivery_fee + tax_amount - discount_amount\<close> of the stored fields, computed in
  floats and rounded to two decimals.
\<close>

definition total_matches_parts :: "order \<Rightarrow> bool" where
  "total_matches_parts order \<longleftrightarrow>
     o_total_amount order
       = py_round2 (float_sub (float_add (float_add (o_subtotal order) (o_delivery_fee order))
                                (o_tax_amount order))
                      (o_discount_amount order))"

text \<open>The columns of \<^verbatim>\<open>Restaurant\<close> and \<^verbatim>\<open>MenuItem\<close> that the order code reads, the
  \<^verbatim>\<open>OrderItem\<close> model, and an item of the request (a dictionary with the keys
  \<^verbatim>\<open>menu_item_id\<close>, \<^verbatim>\<open>quantity\<close> and optionally \<^verbatim>\<open>special_instructions\<close>).\<close>

record restaurant =
  r_id :: int
  r_is_active :: bool
  r_owner_id :: int
  r_latitude :: "rat option"
  r_longitude :: "rat option"
  r_delivery_fee :: rat
  r_minimum_order :: rat
  r_delivery_time :: "int option"

record menu_item =
  mi_id :: int
  mi_restaurant_id :: int
  mi_is_available :: bool
  mi_price :: rat

record order_item =
  oi_id :: int
  oi_order_id :: int
  oi_menu_item_id :: int
  oi_quantity :: int
  oi_unit_price :: rat
  oi_total_price :: rat
  oi_special_instructions :: "string option"

record item_request =
  it_menu_item_id :: int
  it_quantity :: int
  it_special_instructions :: "string option"

text \<open>The committed tables.\<close>

record store =
  st_restaurants :: "restaurant list"
  st_menu_items :: "menu_item list"
  st_orders :: "order list"
  st_order_items :: "order_item list"

text \<open>The loop of \<^verbatim>\<open>create_order\<close> over the requested items. The state is \<^verbatim>\<open>subtotal\<close> and
  \<^verbatim>\<open>order_items_data\<close>; an entry of the latter is an order item still without id and order.\<close>

fun collect_items ::
  "menu_item list \<Rightarrow> int \<Rightarrow> item_request list \<Rightarrow> rat \<times> order_item list
     \<Rightarrow> py_error + rat \<times> order_item list"
where
  "collect_items menu restaurant_id [] state = Inr state"
| "collect_items menu restaurant_id (item # rest) (subtotal, order_items_data) =
     (case find (\<lambda>row. mi_id row = it_menu_item_id item \<and> mi_restaurant_id row = restaurant_id
                          \<and> mi_is_available row) menu of
        None \<Rightarrow> Inl ValidationException
      | Some menu_item \<Rightarrow>
          if it_quantity item \<le> 0 then Inl ValidationException
          else
            let item_total = float_mul (mi_price menu_item) (fl (of_int (it_quantity item)))
            in collect_items menu restaurant_id rest
                 (float_add subtotal item_total,
                  order_items_data @
                    [\<lparr>oi_id = 0, oi_order_id = 0, oi_menu_item_id = it_menu_item_id item,
                      oi_quantity = it_quantity item, oi_unit_price = mi_price menu_item,
                      oi_total_price = item_total,
                      oi_special_instructions = it_special_instructions item\<rparr>]))"

text \<open>The delivery fee of an order. \<^verbatim>\<open>calculate_distance\<close> (trigonometry) and the
  \<^verbatim>\<open>calculate_delivery_fee\<close> that \<^verbatim>\<open>order_service.py\<close> imports (the helpers define no
  function of that name) are arguments. The distance is used when all four coordinates are
  true, and a coordinate that is \<^verbatim>\<open>None\<close> or \<open>0.0\<close> is false.\<close>

definition order_delivery_fee ::
  "(rat \<Rightarrow> rat \<Rightarrow> rat \<Rightarrow> rat \<Rightarrow> rat) \<Rightarrow> (rat \<Rightarrow> rat \<Rightarrow> rat) \<Rightarrow> restaurant
     \<Rightarrow> rat option \<Rightarrow> rat option \<Rightarrow> rat"
where
  "order_delivery_fee calculate_distance calculate_delivery_fee restaurant
       delivery_latitude delivery_longitude =
     (case (delivery_latitude, delivery_longitude, r_latitude restaurant, r_longitude restaurant) of
        (Some lat, Some lon, Some rlat, Some rlon) \<Rightarrow>
          if lat \<noteq> 0 \<and> lon \<noteq> 0 \<and> rlat \<noteq> 0 \<and> rlon \<noteq> 0
          then calculate_delivery_fee (calculate_distance rlat rlon lat lon) (r_delivery_fee restaurant)
          else r_delivery_fee restaurant
      | _ \<Rightarrow> r_delivery_fee restaurant)"

text \<open>The next value of an autoincrement primary key.\<close>

definition next_id :: "int list \<Rightarrow> int" where
  "next_id ids = fold max ids 0 + 1"

text \<open>The order items of the second commit: each entry of \<^verbatim>\<open>order_items_data\<close> with the
  order's id and a fresh id of its own.\<close>

fun number_items :: "int \<Rightarrow> int \<Rightarrow> order_item list \<Rightarrow> order_item list" where
  "number_items order_id first_id [] = []"
| "number_items order_id first_id (item_data # rest) =
     item_data\<lparr>oi_id := first_id, oi_order_id := order_id\<rparr>
       # number_items order_id (first_id + 1) rest"

text \<open>
  \<^verbatim>\<open>OrderService.create_order\<close> up to and including its first \<^verbatim>\<open>db.commit()\<close>, which
  inserts the order row alone: the order as refreshed, \<^verbatim>\<open>order_items_data\<close>, and the
  committed tables. \<open>order_number\<close> is what \<^verbatim>\<open>generate_order_number()\<close> returns;
  \<open>commit1_ok\<close> says whether the commit goes through (a failed commit raises out of the
  method, which catches nothing). The new row takes the column defaults: status PENDING, payment
  status PENDING, no delivery partner, no timestamps, \<^verbatim>\<open>created_at\<close> and \<^verbatim>\<open>updated_at\<close>
  from the database clock.
\<close>

definition create_order_first_commit ::
  "(rat \<Rightarrow> rat \<Rightarrow> rat \<Rightarrow> rat \<Rightarrow> rat) \<Rightarrow> (rat \<Rightarrow> rat \<Rightarrow> rat) \<Rightarrow> string \<Rightarrow> datetime \<Rightarrow> bool
     \<Rightarrow> store \<Rightarrow> int \<Rightarrow> int \<Rightarrow> item_request list \<Rightarrow> string \<Rightarrow> rat option \<Rightarrow> rat option
     \<Rightarrow> string option \<Rightarrow> (py_error + order \<times> order_item list) \<times> store"
where
  "create_order_first_commit calculate_distance calculate_delivery_fee order_number db_now
       commit1_ok db customer_id restaurant_id items delivery_address delivery_latitude
       delivery_longitude delivery_instructions =
     (case find (\<lambda>row. r_id row = restaurant_id \<and> r_is_active row) (st_restaurants db) of
        None \<Rightarrow> (Inl NotFoundException, db)
      | Some restaurant \<Rightarrow>
          (case collect_items (st_menu_items db) restaurant_id items (0, []) of
             Inl e \<Rightarrow> (Inl e, db)
           | Inr (subtotal, order_items_data) \<Rightarrow>
               if subtotal < r_minimum_order restaurant then (Inl ValidationException, db)
               else
                 let delivery_fee = order_delivery_fee calculate_distance calculate_delivery_fee
                                      restaurant delivery_latitude delivery_longitude;
                     totals = calculate_order_total subtotal delivery_fee (fl (8 / 100)) 0;
                     order =
                       \<lparr>o_id = next_id (map o_id (st_orders db)),
                        o_order_number = order_number,
                        o_customer_id = customer_id,
                        o_restaurant_id = restaurant_id,
                        o_delivery_partner_id = None,
                        o_status = PENDING,
                        o_payment_status = OP_PENDING,
                        o_subtotal = t_subtotal totals,
                        o_delivery_fee = t_delivery_fee totals,
                        o_tax_amount = t_tax_amount totals,
                        o_discount_amount = t_discount_amount totals,
                        o_total_amount = t_total_amount totals,
                        o_delivery_address = delivery_address,
                        o_delivery_latitude = delivery_latitude,
                        o_delivery_longitude = delivery_longitude,
                        o_delivery_instructions = delivery_instructions,
                        o_estimated_delivery_time = None,
                        o_prepared_at = None,
                        o_picked_up_at = None,
                        o_delivered_at = None,
                        o_cancelled_at = None,
                        o_created_at = db_now,
                        o_updated_at = db_now\<rparr>
                 in if commit1_ok
                    then (Inr (order, order_items_data), db\<lparr>st_orders := st_orders db @ [order]\<rparr>)
                    else (Inl OperationalError, db)))"

text \<open>The whole of \<^verbatim>\<open>create_order\<close>: after the first commit, the order items are added and
  a second \<^verbatim>\<open>db.commit()\<close> inserts them. \<open>commit2_ok\<close> says whether that one goes
  through.\<close>

definition create_order ::
  "(rat \<Rightarrow> rat \<Rightarrow> rat \<Rightarrow> rat \<Rightarrow> rat) \<Rightarrow> (rat \<Rightarrow> rat \<Rightarrow> rat) \<Rightarrow> string \<Rightarrow> datetime \<Rightarrow> bool \<Rightarrow> bool
     \<Rightarrow> store \<Rightarrow> int \<Rightarrow> int \<Rightarrow> item_request list \<Rightarrow> string \<Rightarrow> rat option \<Rightarrow> rat option
     \<Rightarrow> string option \<Rightarrow> (py_error + order) \<times> store"
where
  "create_order calculate_distance calculate_delivery_fee order_number db_now commit1_ok commit2_ok
       db customer_id restaurant_id items delivery_address delivery_latitude delivery_longitude
       delivery_instructions =
     (case create_order_first_commit calculate_distance calculate_delivery_fee order_number db_now
             commit1_ok db customer_id restaurant_id items delivery_address delivery_latitude
             delivery_longitude delivery_instructions of
        (Inl e, db') \<Rightarrow> (Inl e, db')
      | (Inr (order, order_items_data), db') \<Rightarrow>
          if commit2_ok
          then (Inr order,
                db'\<lparr>st_order_items := st_order_items db'
                       @ number_items (o_id order) (next_id (map oi_id (st_order_items db')))
                           order_items_data\<rparr>)
          else (Inl OperationalError, db'))"

section \<open>The order jobs\<close>

text \<open>\<^verbatim>\<open>OrderStatus[new_status]\<close> looks a member up by its name (\<^verbatim>\<open>'CONFIRMED'\<close>), not by
  its value (\<^verbatim>\<open>'confirmed'\<close>), and raises \<^verbatim>\<open>KeyError\<close> for any other string.\<close>

fun status_name :: "order_status \<Rightarrow> string" where
  "status_name PENDING = ''PENDING''"
| "status_name CONFIRMED = ''CONFIRMED''"
| "status_name PREPARING = ''PREPARING''"
| "status_name READY_FOR_PICKUP = ''READY_FOR_PICKUP''"
| "status_name OUT_FOR_DELIVERY = ''OUT_FOR_DELIVERY''"
| "status_name DELIVERED = ''DELIVERED''"
| "status_name CANCELLED = ''CANCELLED''"
| "status_name REFUNDED = ''REFUNDED''"

definition status_by_name :: "string \<Rightarrow> order_status option" where
  "status_by_name name =
     find (\<lambda>member. status_name member = name)
       [PENDING, CONFIRMED, PREPARING, READY_FOR_PICKUP, OUT_FOR_DELIVERY, DELIVERED, CANCELLED,
        REFUNDED]"

text \<open>The attribute \<^verbatim>\<open>values\<close> of an enum member, which the job reads in
  \<^verbatim>\<open>OrderStatus.PREPARING.values\<close>: a member has \<^verbatim>\<open>value\<close> and \<^verbatim>\<open>name\<close> and no
  \<^verbatim>\<open>values\<close>, so the expression raises \<^verbatim>\<open>AttributeError\<close>.\<close>

definition enum_member_values :: "order_status \<Rightarrow> py_error + string" where
  "enum_member_values member = Inl AttributeError"

text \<open>The timestamp chain of the job \<^verbatim>\<open>update_order_status\<close>. Its first test evaluates
  \<^verbatim>\<open>OrderStatus.PREPARING.values\<close>, whatever \<^verbatim>\<open>new_status\<close> is.\<close>

definition stamp_timestamp_job :: "string \<Rightarrow> datetime \<Rightarrow> order \<Rightarrow> py_error + order" where
  "stamp_timestamp_job new_status now order =
     (case enum_member_values PREPARING of
        Inl e \<Rightarrow> Inl e
      | Inr preparing_values \<Rightarrow>
          Inr (if new_status = preparing_values then order\<lparr>o_prepared_at := Some now\<rparr>
               else if new_status = status_value OUT_FOR_DELIVERY then order\<lparr>o_picked_up_at := Some now\<rparr>
               else if new_status = status_value DELIVERED then order\<lparr>o_delivered_at := Some now\<rparr>
               else if new_status = status_value CANCELLED then order\<lparr>o_cancelled_at := Some now\<rparr>
               else order))"

text \<open>The dictionary \<^verbatim>\<open>notification_message\<close> of the job. Its \<^verbatim>\<open>order_number\<close> entry is
  the class attribute \<^verbatim>\<open>Order.order_number\<close>, not the number of the order.\<close>

definition order_status_notification :: "int \<Rightarrow> order_status \<Rightarrow> string \<Rightarrow> datetime \<Rightarrow> json" where
  "order_status_notification order_id old_status new_status now =
     JDict [(''type'', JStr ''order_status_update''),
            (''order_id'', JInt order_id),
            (''order_number'', JColumn ''Order.order_number''),
            (''old_status'', JStr (status_value old_status)),
            (''new_status'', JStr new_status),
            (''timestamp'', JTime now)]"

text \<open>The two \<^verbatim>\<open>send_task\<close> calls that follow, the first under the comment
  \<^verbatim>\<open># Notify customer\<close>: both pass \<^verbatim>\<open>order.restaurant.owner_id\<close>. When the first
  raises, the second is not reached.\<close>

definition notify_order_parties :: "restaurant \<Rightarrow> json \<Rightarrow> task list \<Rightarrow> py_error + task list" where
  "notify_order_parties restaurant notification_message queue =
     (case send_task ''app.tasks.notification_tasks.send_websocket_notification''
             [JInt (r_owner_id restaurant), notification_message] queue of
        Inl e \<Rightarrow> Inl e
      | Inr queue' \<Rightarrow>
          send_task ''app.tasks.notification_tasks.send_websocket_notification''
            [JInt (r_owner_id restaurant), notification_message] queue')"

text \<open>The job \<^verbatim>\<open>update_order_status(order_id, new_status)\<close> of
  \<^verbatim>\<open>app/task/order_task.py\<close>: the returned flag, the committed orders and the queue. It checks
  no transition graph. An exception is followed by \<^verbatim>\<open>db.rollback()\<close> and
  \<^verbatim>\<open>return False\<close>; after \<^verbatim>\<open>db.commit()\<close> the rollback undoes nothing.\<close>

definition update_order_status_job ::
  "restaurant list \<Rightarrow> order list \<Rightarrow> task list \<Rightarrow> datetime \<Rightarrow> datetime \<Rightarrow> int \<Rightarrow> string
     \<Rightarrow> bool \<times> order list \<times> task list"
where
  "update_order_status_job restaurants db queue now db_now order_id new_status =
     (case find (\<lambda>row. o_id row = order_id) db of
        None \<Rightarrow> (False, db, queue)
      | Some order \<Rightarrow>
          (case status_by_name new_status of
             None \<Rightarrow> (False, db, queue)
           | Some member \<Rightarrow>
               (case stamp_timestamp_job new_status now (order\<lparr>o_status := member\<rparr>) of
                  Inl e \<Rightarrow> (False, db, queue)
                | Inr stamped \<Rightarrow>
                    let order' = flush_order db_now order stamped;
                        db' = write_order db order'
                    in (case find (\<lambda>row. r_id row = o_restaurant_id order') restaurants of
                          None \<Rightarrow> (False, db', queue)
                        | Some restaurant \<Rightarrow>
                            (case notify_order_parties restaurant
                                    (order_status_notification order_id (o_status order) new_status now)
                                    queue of
                               Inl e \<Rightarrow> (False, db', queue)
                             | Inr queue' \<Rightarrow> (True, db', queue'))))))"

text \<open>
  The query of \<^verbatim>\<open>auto_cancel_unpaid_order\<close>,
  \<^verbatim>\<open>filter(Order.status == OrderStatus, Order.created_at < cutoff_time).all()\<close>. The status
  column is compared with the enum class \<^verbatim>\<open>OrderStatus\<close> itself, where a member such as
  \<^verbatim>\<open>OrderStatus.PENDING\<close> would stand. The class is no value of the column: when the
  statement is executed the \<^verbatim>\<open>Enum\<close> column type looks the bound value up among the
  members and raises \<^verbatim>\<open>LookupError\<close>.
\<close>

datatype status_operand = Member order_status | OrderStatus_class

definition bind_status :: "status_operand \<Rightarrow> py_error + order_status" where
  "bind_status operand = (case operand of Member s \<Rightarrow> Inr s | OrderStatus_class \<Rightarrow> Inl LookupError)"

definition unpaid_orders_query :: "datetime \<Rightarrow> order list \<Rightarrow> py_error + order list" where
  "unpaid_orders_query cutoff_time db =
     (case bind_status OrderStatus_class of
        Inl e \<Rightarrow> Inl e
      | Inr s \<Rightarrow> Inr (filter (\<lambda>row. o_status row = s \<and> o_created_at row < cutoff_time) db))"

text \<open>The dictionary \<^verbatim>\<open>notification\<close> of a cancelled order.\<close>

definition order_cancelled_notification :: "datetime \<Rightarrow> order \<Rightarrow> json" where
  "order_cancelled_notification utcnow order =
     JDict [(''type'', JStr ''order_cancelled''),
            (''order_id'', JInt (o_id order)),
            (''reason'', JStr ''Payment timeout''),
            (''timestamp'', JTime utcnow)]"

text \<open>The loop of \<^verbatim>\<open>auto_cancel_unpaid_order\<close> over the orders the query returned. The status
  and \<^verbatim>\<open>cancelled_at\<close> are assigned on the row object; no transition is checked. The state
  is the list of orders changed so far, \<^verbatim>\<open>cancelled_count\<close> and the queue. An exception
  raised by \<^verbatim>\<open>send_task\<close> leaves the loop, with the queue as it is then.\<close>

fun cancel_orders_loop ::
  "datetime \<Rightarrow> datetime \<Rightarrow> order list \<Rightarrow> order list \<times> nat \<times> task list
     \<Rightarrow> py_error \<times> task list + order list \<times> nat \<times> task list"
where
  "cancel_orders_loop now utcnow [] state = Inr state"
| "cancel_orders_loop now utcnow (order # rest) (changed, cancelled_count, queue) =
     (case send_task ''app.tasks.notification_tasks.send_websocket_notification''
             [JInt (o_customer_id order), order_cancelled_notification utcnow order] queue of
        Inl e \<Rightarrow> Inl (e, queue)
      | Inr queue' \<Rightarrow>
          cancel_orders_loop now utcnow rest
            (changed @ [order\<lparr>o_status := CANCELLED, o_cancelled_at := Some now\<rparr>],
             cancelled_count + 1,
             queue'))"

text \<open>\<^verbatim>\<open>db.commit()\<close> after the loop: each changed order is written under its primary key,
  with \<^verbatim>\<open>updated_at\<close> from the database when the row differs from the one loaded.\<close>

definition commit_order :: "datetime \<Rightarrow> order list \<Rightarrow> order list \<Rightarrow> order \<Rightarrow> order list" where
  "commit_order db_now db table order =
     (case get_order_by_id db (o_id order) of
        None \<Rightarrow> table
      | Some loaded \<Rightarrow> write_order table (flush_order db_now loaded order))"

definition commit_orders :: "datetime \<Rightarrow> order list \<Rightarrow> order list \<Rightarrow> order list" where
  "commit_orders db_now db changed = foldl (commit_order db_now db) db changed"

text \<open>The scheduled job \<^verbatim>\<open>auto_cancel_unpaid_order()\<close>: \<^verbatim>\<open>cancelled_count\<close>, the
  committed orders and the queue. The cutoff is fifteen minutes after \<^verbatim>\<open>datetime.now()\<close>
  (\<^verbatim>\<open>datetime.now() + timedelta(minutes=15)\<close>). An exception is followed by
  \<^verbatim>\<open>db.rollback()\<close> and \<^verbatim>\<open>return 0\<close>.\<close>

definition auto_cancel_unpaid_order ::
  "datetime \<Rightarrow> datetime \<Rightarrow> datetime \<Rightarrow> order list \<Rightarrow> task list \<Rightarrow> nat \<times> order list \<times> task list"
where
  "auto_cancel_unpaid_order now utcnow db_now db queue =
     (let cutoff_time = now + 15 * 60
      in case unpaid_orders_query cutoff_time db of
           Inl e \<Rightarrow> (0, db, queue)
         | Inr unpaid_orders \<Rightarrow>
             (case cancel_orders_loop now utcnow unpaid_orders ([], 0, queue) of
                Inl (e, queue') \<Rightarrow> (0, db, queue')
              | Inr (changed, cancelled_count, queue') \<Rightarrow>
                  (cancelled_count, commit_orders db_now db changed, queue')))"

section \<open>Sample data\<close>

text \<open>An order of customer 10 at restaurant 5, with delivery partner 30, created at time 1000.\<close>

definition order1 :: order where
  "order1 =
     \<lparr>o_id = 1, o_order_number = ''ORD=20240101-A1B2C3'', o_customer_id = 10,
      o_restaurant_id = 5, o_delivery_partner_id = Some 30, o_status = PENDING,
      o_payment_status = OP_PENDING, o_subtotal = 25, o_delivery_fee = 3,
      o_tax_amount = 2, o_discount_amount = 0, o_total_amount = 30,
      o_delivery_address = ''1 Main Street'', o_delivery_latitude = None,
      o_delivery_longitude = None, o_delivery_instructions = None,
      o_estimated_delivery_time = None, o_prepared_at = None, o_picked_up_at = None,
      o_delivered_at = None, o_cancelled_at = None, o_created_at = 1000,
      o_updated_at = 1000\<rparr>"

text \<open>A payment of order 1, a verified "payment succeeded" event for that order and a
  "payment failed" event.\<close>

definition pay1 :: payment where
  "pay1 =
     \<lparr>p_id = 1, p_user_id = 10, p_order_id = 1, p_stripe_payment_intent_id = Some ''pi_1'',
      p_amount = 30, p_currency = ''usd'', p_method = CREDIT_CARD, p_status = PAY_PENDING,
      p_failure_reason = None, p_refund_amount = 0, p_refunded_at = None,
      p_created_at = 1000, p_updated_at = 1000\<rparr>"



definition msg1 :: json where
  "msg1 = JDict [(''type'', JStr ''order_status_update''), (''order_id'', JInt 1)]"

text \<open>A restaurant with delivery fee 2.99 and minimum order 30.00, owned by user 20, with one
  menu item priced 25.00; a request for two of that item and the order it creates; a request
  for one of it.\<close>

definition restaurant5 :: restaurant where
  "restaurant5 =
     \<lparr>r_id = 5, r_is_active = True, r_owner_id = 20, r_latitude = None, r_longitude = None,
      r_delivery_fee = fl (299 / 100), r_minimum_order = 30, r_delivery_time = Some 30\<rparr>"

definition store1 :: store where
  "store1 =
     \<lparr>st_restaurants = [restaurant5],
      st_menu_items =
        [\<lparr>mi_id = 100, mi_restaurant_id = 5, mi_is_available = True, mi_price = 25\<rparr>],
      st_orders = [],
      st_order_items = []\<rparr>"

definition request1 :: "item_request list" where
  "request1 = [\<lparr>it_menu_item_id = 100, it_quantity = 2, it_special_instructions = None\<rparr>]"

definition request_one :: "item_request list" where
  "request_one = [\<lparr>it_menu_item_id = 100, it_quantity = 1, it_special_instructions = None\<rparr>]"

definition order2 :: order where
  "order2 =
     \<lparr>o_id = 1, o_order_number = ''ORD=20240101-A1B2C3'', o_customer_id = 10,
      o_restaurant_id = 5, o_delivery_partner_id = None, o_status = PENDING,
      o_payment_status = OP_PENDING, o_subtotal = 50, o_delivery_fee = fl (299 / 100),
      o_tax_amount = 4, o_discount_amount = 0, o_total_amount = fl (5699 / 100),
      o_delivery_address = ''1 Main Street'', o_delivery_latitude = None,
      o_delivery_longitude = None, o_delivery_instructions = None,
      o_estimated_delivery_time = None, o_prepared_at = None, o_picked_up_at = None,
      o_delivered_at = None, o_cancelled_at = None, o_created_at = 1000,
      o_updated_at = 1000\<rparr>"

text \<open>A restaurant whose delivery fee, 2.994, and whose one price, 10.004, are not whole
  cents, a request for one item, and the order it creates.\<close>

definition store2 :: store where
  "store2 =
     \<lparr>st_restaurants =
        [\<lparr>r_id = 5, r_is_active = True, r_owner_id = 20, r_latitude = None, r_longitude = None,
          r_delivery_fee = fl (2994 / 1000), r_minimum_order = 0, r_delivery_time = Some 30\<rparr>],
      st_menu_items =
        [\<lparr>mi_id = 100, mi_restaurant_id = 5, mi_is_available = True,
          mi_price = fl (10004 / 1000)\<rparr>],
      st_orders = [],
      st_order_items = []\<rparr>"

definition order4 :: order where
  "order4 =
     \<lparr>o_id = 1, o_order_number = ''ORD=20240101-D4E5F6'', o_customer_id = 10,
      o_restaurant_id = 5, o_delivery_partner_id = None, o_status = PENDING,
      o_payment_status = OP_PENDING, o_subtotal = 10, o_delivery_fee = fl (299 / 100),
      o_tax_amount = fl (80 / 100), o_discount_amount = 0, o_total_amount = fl (1380 / 100),
      o_delivery_address = ''1 Main Street'', o_delivery_latitude = None,
      o_delivery_longitude = None, o_delivery_instructions = None,
      o_estimated_delivery_time = None, o_prepared_at = None, o_picked_up_at = None,
      o_delivered_at = None, o_cancelled_at = None, o_created_at = 1000,
      o_updated_at = 1000\<rparr>"

section \<open>Facts about the order status operation\<close>

lemma transition_refused_iff:
  "transition_refused s t \<longleftrightarrow> \<not> terminal s \<and> \<not> legal_transition s t"
  by (cases s) (auto simp: transition_refused_def valid_transitions_def terminal_def)

lemma get_order_by_id_write_order:
  assumes "get_order_by_id db i = Some order" and "o_id order' = i"
  shows "get_order_by_id (write_order db order') i = Some order'"
  using assms
  by (induction db) (auto simp: get_order_by_id_def write_order_def split: if_splits)

lemma get_order_by_id_id:
  "get_order_by_id db i = Some order \<Longrightarrow> o_id order = i"
  by (induction db) (auto simp: get_order_by_id_def split: if_splits)

subsection \<open>Transitions outside the graph\<close>

text \<open>
  C1, as amended. For every stored order whose status is not terminal (PENDING, CONFIRMED,
  PREPARING, READY_FOR_PICKUP or OUT_FOR_DELIVERY) and every target status that the legal
  transition graph does not allow from it, \<^verbatim>\<open>update_order_status\<close> raises
  \<^verbatim>\<open>ValidationException\<close> (the code's name for an invalid transition) and the stored
  table, hence the order's status, is unchanged.
\<close>

theorem invalid_transition_rejected:
  assumes "get_order_by_id db order_id = Some order"
    and "\<not> terminal (o_status order)"
    and "\<not> legal_transition (o_status order) new_status"
  shows "update_order_status db now db_now order_id new_status updated_by_id
           = (Inl ValidationException, db)"
  using assms by (simp add: update_order_status_def transition_refused_iff)

theorem invalid_transition_rejected_witness:
  "get_order_by_id [order1] 1 = Some order1
   \<and> \<not> terminal (o_status order1)
   \<and> \<not> legal_transition (o_status order1) DELIVERED
   \<and> update_order_status [order1] 2000 2001 1 DELIVERED 7 = (Inl ValidationException, [order1])"
proof -
  have a: "get_order_by_id [order1] 1 = Some order1"
    by (simp add: get_order_by_id_def order1_def)
  have b: "\<not> terminal (o_status order1)"
    by (simp add: terminal_def order1_def)
  have c: "\<not> legal_transition (o_status order1) DELIVERED"
    by (simp add: order1_def)
  from invalid_transition_rejected [OF a b c] a b c show ?thesis by simp
qed

text \<open>
  C1 as stated fails for a terminal source: DELIVERED to PENDING is not in the graph, yet the
  operation succeeds and commits status PENDING, because \<^verbatim>\<open>valid_transitions\<close> has no key
  DELIVERED and the check is skipped for a status that is no key.
\<close>

theorem terminal_source_not_rejected:
  "\<not> legal_transition DELIVERED PENDING
   \<and> update_order_status [order1\<lparr>o_status := DELIVERED\<rparr>] 2000 2001 1 PENDING 7
       = (Inr (order1\<lparr>o_status := PENDING, o_updated_at := 2001\<rparr>),
          [order1\<lparr>o_status := PENDING, o_updated_at := 2001\<rparr>])"
  by (simp add: update_order_status_def get_order_by_id_def transition_refused_def
      valid_transitions_def stamp_timestamp_def flush_order_def write_order_def order1_def Let_def)

subsection \<open>What a legal transition writes\<close>

text \<open>
  C2, as amended. For every stored order and every legal pair of its status and a target,
  \<^verbatim>\<open>update_order_status\<close> succeeds, writes the new status, stamps exactly the matching
  timestamp with the clock value read (\<^verbatim>\<open>prepared_at\<close> for PREPARING,
  \<^verbatim>\<open>picked_up_at\<close> for OUT_FOR_DELIVERY, \<^verbatim>\<open>delivered_at\<close> for DELIVERED,
  \<^verbatim>\<open>cancelled_at\<close> for CANCELLED, none for CONFIRMED and READY_FOR_PICKUP) and leaves
  the other three as they were, has \<^verbatim>\<open>updated_at\<close> set by the database, changes no
  other column, and commits the row unconditionally under its primary key. There is no
  version counter.
\<close>

theorem legal_transition_effect:
  assumes "get_order_by_id db order_id = Some order"
    and "legal_transition (o_status order) new_status"
  shows "\<exists>order'.
           update_order_status db now db_now order_id new_status updated_by_id
             = (Inr order', write_order db order')
         \<and> get_order_by_id (write_order db order') order_id = Some order'
         \<and> o_status order' = new_status
         \<and> o_prepared_at order' = (if new_status = PREPARING then Some now else o_prepared_at order)
         \<and> o_picked_up_at order'
             = (if new_status = OUT_FOR_DELIVERY then Some now else o_picked_up_at order)
         \<and> o_delivered_at order' = (if new_status = DELIVERED then Some now else o_delivered_at order)
         \<and> o_cancelled_at order' = (if new_status = CANCELLED then Some now else o_cancelled_at order)
         \<and> o_updated_at order' = db_now
         \<and> order'\<lparr>o_status := o_status order, o_prepared_at := o_prepared_at order,
                   o_picked_up_at := o_picked_up_at order, o_delivered_at := o_delivered_at order,
                   o_cancelled_at := o_cancelled_at order, o_updated_at := o_updated_at order\<rparr> = order"
proof -
  define order' where
    "order' = flush_order db_now order (stamp_timestamp new_status now (order\<lparr>o_status := new_status\<rparr>))"
  have changed: "o_status order \<noteq> new_status"
    using assms(2) by (cases "o_status order") auto
  then have neq: "stamp_timestamp new_status now (order\<lparr>o_status := new_status\<rparr>) \<noteq> order"
    by (auto simp: stamp_timestamp_def dest: arg_cong [where f = o_status])
  have not_refused: "\<not> transition_refused (o_status order) new_status"
    using assms(2) by (simp add: transition_refused_iff)
  have run: "update_order_status db now db_now order_id new_status updated_by_id
               = (Inr order', write_order db order')"
    using assms(1) not_refused by (simp add: update_order_status_def order'_def Let_def)
  have ident: "o_id order' = order_id"
    using get_order_by_id_id [OF assms(1)] neq
    by (simp add: order'_def flush_order_def stamp_timestamp_def)
  have stored: "get_order_by_id (write_order db order') order_id = Some order'"
    by (rule get_order_by_id_write_order [OF assms(1) ident])
  have fields: "o_status order' = new_status"
    "o_prepared_at order' = (if new_status = PREPARING then Some now else o_prepared_at order)"
    "o_picked_up_at order' = (if new_status = OUT_FOR_DELIVERY then Some now else o_picked_up_at order)"
    "o_delivered_at order' = (if new_status = DELIVERED then Some now else o_delivered_at order)"
    "o_cancelled_at order' = (if new_status = CANCELLED then Some now else o_cancelled_at order)"
    "o_updated_at order' = db_now"
    using neq by (simp_all add: order'_def flush_order_def stamp_timestamp_def)
  have rest: "order'\<lparr>o_status := o_status order, o_prepared_at := o_prepared_at order,
                   o_picked_up_at := o_picked_up_at order, o_delivered_at := o_delivered_at order,
                   o_cancelled_at := o_cancelled_at order, o_updated_at := o_updated_at order\<rparr> = order"
    using neq by (simp add: order'_def flush_order_def stamp_timestamp_def)
  from run stored fields rest show ?thesis by blast
qed

theorem legal_transition_effect_witness:
  "get_order_by_id [order1] 1 = Some order1
   \<and> legal_transition (o_status order1) CANCELLED
   \<and> update_order_status [order1] 2000 2001 1 CANCELLED 7
       = (Inr (order1\<lparr>o_status := CANCELLED, o_cancelled_at := Some 2000, o_updated_at := 2001\<rparr>),
          [order1\<lparr>o_status := CANCELLED, o_cancelled_at := Some 2000, o_updated_at := 2001\<rparr>])"
proof -
  have a: "get_order_by_id [order1] 1 = Some order1"
    by (simp add: get_order_by_id_def order1_def)
  have b: "legal_transition (o_status order1) CANCELLED"
    by (simp add: order1_def)
  from legal_transition_effect [OF a b, of 2000 2001 7]
  obtain order' where
    run: "update_order_status [order1] 2000 2001 1 CANCELLED 7 = (Inr order', write_order [order1] order')"
    and rest: "order'\<lparr>o_status := o_status order1, o_prepared_at := o_prepared_at order1,
                   o_picked_up_at := o_picked_up_at order1, o_delivered_at := o_delivered_at order1,
                   o_cancelled_at := o_cancelled_at order1, o_updated_at := o_updated_at order1\<rparr> = order1"
    and st: "o_status order' = CANCELLED" "o_cancelled_at order' = Some 2000" "o_updated_at order' = 2001"
      "o_prepared_at order' = o_prepared_at order1" "o_picked_up_at order' = o_picked_up_at order1"
      "o_delivered_at order' = o_delivered_at order1"
    by auto
  have eq: "order' = order1\<lparr>o_status := CANCELLED, o_cancelled_at := Some 2000, o_updated_at := 2001\<rparr>"
    using rest st by (cases order') (auto simp: order1_def)
  have w: "write_order [order1] order' = [order']"
    using eq by (simp add: write_order_def)
  from run eq w a b show ?thesis by simp
qed

text \<open>
  C2 as stated fails: the claim has a version counter go up by one. The row committed by the
  legal transition PENDING to CONFIRMED is the loaded row with the status replaced and
  \<^verbatim>\<open>updated_at\<close> set to the database clock; every other column, so every number in
  the row, is what it was.
\<close>

theorem transition_increments_no_column:
  "update_order_status [order1] 2000 2001 1 CONFIRMED 7
     = (Inr (order1\<lparr>o_status := CONFIRMED, o_updated_at := 2001\<rparr>),
        [order1\<lparr>o_status := CONFIRMED, o_updated_at := 2001\<rparr>])"
  by (simp add: update_order_status_def get_order_by_id_def transition_refused_def
      valid_transitions_def stamp_timestamp_def flush_order_def write_order_def order1_def Let_def)

section \<open>Facts about payments\<close>

subsection \<open>Webhook and poll\<close>


subsection \<open>Redelivered webhook events\<close>





subsection \<open>Refunds\<close>

text \<open>
  C5, as amended. \<^verbatim>\<open>process_refund\<close> does not read the payment's status: for every payment,
  every behaviour of the provider and every requested amount, the value returned (or the
  exception raised) and the refund requested from the provider are the same whatever status the
  payment is given. And whenever the provider does not report the refund as \<^verbatim>\<open>succeeded\<close>
  (it raises, or reports another status) or the payment has no provider reference,
  \<^verbatim>\<open>process_refund\<close> returns False and the payment, with its status,
  \<^verbatim>\<open>refund_amount\<close> and \<^verbatim>\<open>refunded_at\<close>, and the committed table are unchanged.
\<close>

theorem refund_not_succeeded_changes_nothing:
  "fst (process_refund refund_create db_now db (payment\<lparr>p_status := any_status\<rparr>) refund_amount)
     = fst (process_refund refund_create db_now db payment refund_amount)
   \<and> snd (snd (snd (process_refund refund_create db_now db (payment\<lparr>p_status := any_status\<rparr>)
                      refund_amount)))
       = snd (snd (snd (process_refund refund_create db_now db payment refund_amount)))
   \<and> ((\<forall>intent_id cents.
          p_stripe_payment_intent_id payment = Some intent_id \<and> intent_id \<noteq> []
          \<longrightarrow> refund_create intent_id cents \<noteq> Inr ''succeeded'')
        \<longrightarrow> fst (process_refund refund_create db_now db payment refund_amount) = Inr False
            \<and> fst (snd (process_refund refund_create db_now db payment refund_amount)) = payment
            \<and> fst (snd (snd (process_refund refund_create db_now db payment refund_amount))) = db)"
proof (intro conjI impI)
  show "fst (process_refund refund_create db_now db (payment\<lparr>p_status := any_status\<rparr>) refund_amount)
     = fst (process_refund refund_create db_now db payment refund_amount)"
    by (simp add: process_refund_def Let_def module_datetime_utcnow_def
        split: option.splits sum.splits)
next
  show "snd (snd (snd (process_refund refund_create db_now db (payment\<lparr>p_status := any_status\<rparr>)
                      refund_amount)))
       = snd (snd (snd (process_refund refund_create db_now db payment refund_amount)))"
    by (simp add: process_refund_def Let_def module_datetime_utcnow_def
        split: option.splits sum.splits)
next
  assume declined: "\<forall>intent_id cents.
          p_stripe_payment_intent_id payment = Some intent_id \<and> intent_id \<noteq> []
          \<longrightarrow> refund_create intent_id cents \<noteq> Inr ''succeeded''"
  then show "fst (process_refund refund_create db_now db payment refund_amount) = Inr False"
    by (auto simp: process_refund_def Let_def module_datetime_utcnow_def
        split: option.splits sum.splits)
  from declined
  show "fst (snd (process_refund refund_create db_now db payment refund_amount)) = payment"
    by (auto simp: process_refund_def Let_def module_datetime_utcnow_def
        split: option.splits sum.splits)
  from declined
  show "fst (snd (snd (process_refund refund_create db_now db payment refund_amount))) = db"
    by (auto simp: process_refund_def Let_def module_datetime_utcnow_def
        split: option.splits sum.splits)
qed

theorem refund_not_succeeded_changes_nothing_witness:
  "process_refund (\<lambda>intent_id cents. Inl ''card_declined'') 3001
       [pay1\<lparr>p_status := PAY_COMPLETED\<rparr>] (pay1\<lparr>p_status := PAY_COMPLETED\<rparr>) None
     = (Inr False, pay1\<lparr>p_status := PAY_COMPLETED\<rparr>, [pay1\<lparr>p_status := PAY_COMPLETED\<rparr>],
        [(''pi_1'', 3000)])
   \<and> fst (process_refund (\<lambda>intent_id cents. Inr ''succeeded'') 3001 [pay1]
            (pay1\<lparr>p_status := PAY_COMPLETED\<rparr>) None)
       = fst (process_refund (\<lambda>intent_id cents. Inr ''succeeded'') 3001 [pay1] pay1 None)
   \<and> snd (snd (snd (process_refund (\<lambda>intent_id cents. Inr ''succeeded'') 3001 [pay1]
                      (pay1\<lparr>p_status := PAY_COMPLETED\<rparr>) None)))
       = [(''pi_1'', 3000)]"
proof -
  have h: "\<forall>intent_id cents.
             p_stripe_payment_intent_id (pay1\<lparr>p_status := PAY_COMPLETED\<rparr>) = Some intent_id
               \<and> intent_id \<noteq> []
             \<longrightarrow> (\<lambda>intent_id cents. Inl ''card_declined'' :: string + string) intent_id cents
                   \<noteq> Inr ''succeeded''"
    by simp
  have cents: "py_int (float_mul 30 100) = 3000"
    by code_simp
  have log: "snd (snd (snd (process_refund (\<lambda>intent_id cents. Inl ''card_declined'') 3001
       [pay1\<lparr>p_status := PAY_COMPLETED\<rparr>] (pay1\<lparr>p_status := PAY_COMPLETED\<rparr>) None)))
     = [(''pi_1'', 3000)]"
    by (simp add: process_refund_def pay1_def cents)
  have log': "snd (snd (snd (process_refund (\<lambda>intent_id cents. Inr ''succeeded'') 3001 [pay1]
       pay1 None)))
     = [(''pi_1'', 3000)]"
    by (simp add: process_refund_def pay1_def cents module_datetime_utcnow_def)
  from refund_not_succeeded_changes_nothing
         [where refund_create = "\<lambda>intent_id cents. Inl ''card_declined''" and db_now = 3001
            and db = "[pay1\<lparr>p_status := PAY_COMPLETED\<rparr>]"
            and payment = "pay1\<lparr>p_status := PAY_COMPLETED\<rparr>" and any_status = PAY_COMPLETED
            and refund_amount = None] h log
  have declined: "process_refund (\<lambda>intent_id cents. Inl ''card_declined'') 3001
       [pay1\<lparr>p_status := PAY_COMPLETED\<rparr>] (pay1\<lparr>p_status := PAY_COMPLETED\<rparr>) None
     = (Inr False, pay1\<lparr>p_status := PAY_COMPLETED\<rparr>, [pay1\<lparr>p_status := PAY_COMPLETED\<rparr>],
        [(''pi_1'', 3000)])"
    by (cases "process_refund (\<lambda>intent_id cents. Inl ''card_declined'') 3001
       [pay1\<lparr>p_status := PAY_COMPLETED\<rparr>] (pay1\<lparr>p_status := PAY_COMPLETED\<rparr>) None") auto
  from refund_not_succeeded_changes_nothing
         [where refund_create = "\<lambda>intent_id cents. Inr ''succeeded''" and db_now = 3001
            and db = "[pay1]" and payment = pay1 and any_status = PAY_COMPLETED
            and refund_amount = None] log'
  have same: "fst (process_refund (\<lambda>intent_id cents. Inr ''succeeded'') 3001 [pay1]
            (pay1\<lparr>p_status := PAY_COMPLETED\<rparr>) None)
       = fst (process_refund (\<lambda>intent_id cents. Inr ''succeeded'') 3001 [pay1] pay1 None)
     \<and> snd (snd (snd (process_refund (\<lambda>intent_id cents. Inr ''succeeded'') 3001 [pay1]
                      (pay1\<lparr>p_status := PAY_COMPLETED\<rparr>) None)))
       = [(''pi_1'', 3000)]"
    by simp
  from declined same show ?thesis by blast
qed

text \<open>
  C5 as stated fails: \<open>pay1\<close> is PENDING, not COMPLETED, and \<^verbatim>\<open>process_refund\<close> still
  requests the refund of the full amount from the provider. When the provider reports
  \<^verbatim>\<open>succeeded\<close> the payment object is given status REFUNDED and \<^verbatim>\<open>refund_amount\<close> 30
  before the call ends (with the \<^verbatim>\<open>AttributeError\<close> of \<^verbatim>\<open>datetime.utcnow()\<close>, uncommitted).
\<close>

theorem refund_of_pending_payment:
  "p_status pay1 = PAY_PENDING
   \<and> process_refund (\<lambda>intent_id cents. Inr ''succeeded'') 3001 [pay1] pay1 None
       = (Inl AttributeError, pay1\<lparr>p_status := PAY_REFUNDED, p_refund_amount := 30\<rparr>, [pay1],
          [(''pi_1'', 3000)])"
proof -
  have cents: "py_int (float_mul 30 100) = 3000"
    by code_simp
  show ?thesis
    by (simp add: process_refund_def pay1_def cents module_datetime_utcnow_def)
qed

section \<open>Facts about the connection manager\<close>

lemma connect_user_connection:
  "user_connection (snd (connect m websocket user_id user_role))
     = (user_connection m)(IntKey user_id \<mapsto> websocket)"
  by (simp add: connect_def Let_def split: option.splits)

lemma send_personal_msg_handle:
  assumes "user_connection m (IntKey user_id) = None \<or> user_connection m (IntKey user_id) = Some ws"
  shows "(user_connection (fst (send_personal_msg send_ok m msg user_id)) (IntKey user_id) = None
          \<or> user_connection (fst (send_personal_msg send_ok m msg user_id)) (IntKey user_id) = Some ws)
         \<and> fst ` set (snd (send_personal_msg send_ok m msg user_id)) \<subseteq> {ws}"
  using assms by (auto simp: send_personal_msg_def split: option.splits)

lemma send_sequence_handle:
  assumes "user_connection m (IntKey user_id) = None \<or> user_connection m (IntKey user_id) = Some ws"
  shows "fst ` set (snd (send_sequence m sends user_id)) \<subseteq> {ws}"
  using assms
proof (induction sends arbitrary: m)
  case Nil
  then show ?case by simp
next
  case (Cons step sends)
  obtain msg send_ok where step: "step = (msg, send_ok)" by (cases step)
  obtain m' written where one: "send_personal_msg send_ok m msg user_id = (m', written)"
    by (cases "send_personal_msg send_ok m msg user_id")
  from send_personal_msg_handle [OF Cons.prems, of send_ok msg] one
  have inv: "user_connection m' (IntKey user_id) = None \<or> user_connection m' (IntKey user_id) = Some ws"
    and w: "fst ` set written \<subseteq> {ws}" by simp_all
  obtain m'' written' where more: "send_sequence m' sends user_id = (m'', written')"
    by (cases "send_sequence m' sends user_id")
  from Cons.IH [OF inv] more have w': "fst ` set written' \<subseteq> {ws}" by simp
  have "snd (send_sequence m (step # sends) user_id) = written @ written'"
    by (simp add: step one more)
  with w w' show ?case by auto
qed

text \<open>
  C7. The registry holds at most one handle per user id, since \<^verbatim>\<open>user_connection\<close> is a
  dictionary keyed by the user id. After a first and then a second \<^verbatim>\<open>connect\<close> for the same
  user id, whatever the roles and the manager before, the entry of that user is the second
  websocket; a \<^verbatim>\<open>send_personal_msg\<close> for that user then writes the message to the second
  websocket and to nothing else; and in every run of later \<^verbatim>\<open>send_personal_msg\<close> calls for
  that user, whichever of them fail, every write goes to the second websocket, so the
  superseded one is never written to.
\<close>

theorem second_connection_supersedes:
  "user_connection (snd (connect (snd (connect m ws1 user_id role1)) ws2 user_id role2)) (IntKey user_id)
     = Some ws2
   \<and> snd (send_personal_msg send_ok (snd (connect (snd (connect m ws1 user_id role1)) ws2 user_id role2))
            msg user_id)
       = (if json_serialisable msg then [(ws2, msg)] else [])
   \<and> fst ` set (snd (send_sequence (snd (connect (snd (connect m ws1 user_id role1)) ws2 user_id role2))
                       sends user_id)) \<subseteq> {ws2}"
proof -
  let ?m = "snd (connect (snd (connect m ws1 user_id role1)) ws2 user_id role2)"
  have h: "user_connection ?m (IntKey user_id) = Some ws2"
    by (simp add: connect_user_connection)
  have one: "snd (send_personal_msg send_ok ?m msg user_id)
       = (if json_serialisable msg then [(ws2, msg)] else [])"
    using h by (simp add: send_personal_msg_def)
  have many: "fst ` set (snd (send_sequence ?m sends user_id)) \<subseteq> {ws2}"
    by (rule send_sequence_handle) (simp add: h)
  from h one many show ?thesis by blast
qed

theorem second_connection_supersedes_witness:
  "user_connection
       (snd (connect (snd (connect ConnectionManager 1 7 ''customer'')) 2 7 ''customer'')) (IntKey 7)
     = Some 2
   \<and> snd (send_personal_msg True
             (snd (connect (snd (connect ConnectionManager 1 7 ''customer'')) 2 7 ''customer'')) msg1 7)
       = [(2, msg1)]
   \<and> fst ` set (snd (send_sequence
                        (snd (connect (snd (connect ConnectionManager 1 7 ''customer'')) 2 7 ''customer''))
                        [(msg1, True), (msg1, False), (msg1, True)] 7)) \<subseteq> {2}"
  using second_connection_supersedes
          [of ConnectionManager 1 7 "''customer''" 2 "''customer''" True msg1
              "[(msg1, True), (msg1, False), (msg1, True)]"]
  by (simp add: msg1_def)

section \<open>Facts about floats\<close>

text \<open>Rounding to the nearest double moves a number by at most half a unit in the last place;
  below \<open>2^45\<close> that is less than half a cent, so a two-decimal amount survives the
  double it is stored in, and rounding a rounded amount again does not change it.\<close>

lemma round_half_even_error: "\<bar>of_int (round_half_even z) - z\<bar> \<le> 1 / 2"
proof -
  have "of_int \<lfloor>z\<rfloor> \<le> z" "z < of_int \<lfloor>z\<rfloor> + 1" by linarith+
  then show ?thesis
    by (auto simp: round_half_even_def Let_def)
qed

lemma round_half_even_unique:
  assumes "\<bar>z - of_int k\<bar> < 1 / 2"
  shows "round_half_even z = k"
proof -
  from assms have lo: "of_int k - 1 / 2 < z" and hi: "z < of_int k + 1 / 2" by linarith+
  have "\<lfloor>z\<rfloor> = k \<or> \<lfloor>z\<rfloor> = k - 1"
  proof -
    have "of_int (k - 1) \<le> z" using lo by simp
    then have "k - 1 \<le> \<lfloor>z\<rfloor>" by (simp add: le_floor_iff)
    moreover have "z < of_int (k + 1)" using hi by simp
    then have "\<lfloor>z\<rfloor> < k + 1" by (simp only: floor_less_iff)
    ultimately show ?thesis by linarith
  qed
  then show ?thesis
  proof
    assume f: "\<lfloor>z\<rfloor> = k"
    with hi have "z - of_int \<lfloor>z\<rfloor> < 1 / 2" by simp
    with f show ?thesis by (simp add: round_half_even_def Let_def)
  next
    assume f: "\<lfloor>z\<rfloor> = k - 1"
    with lo have "1 / 2 < z - of_int \<lfloor>z\<rfloor>" by simp
    with f show ?thesis by (simp add: round_half_even_def Let_def)
  qed
qed

lemma float_exponent_lower:
  assumes "0 < a"
  shows "2 powi (float_exponent a) \<le> a"
proof (cases "1 \<le> a")
  case True
  then have pos: "0 < \<lfloor>a\<rfloor>" by linarith
  from bitlen_bounds [OF pos] have b: "2 ^ nat (bitlen \<lfloor>a\<rfloor> - 1) \<le> \<lfloor>a\<rfloor>" by simp
  have nn: "0 \<le> bitlen \<lfloor>a\<rfloor> - 1"
    using pos bitlen_eq_zero_iff [of "\<lfloor>a\<rfloor>"] bitlen_nonneg [of "\<lfloor>a\<rfloor>"] by linarith
  have "(2::rat) powi (bitlen \<lfloor>a\<rfloor> - 1) = 2 ^ nat (bitlen \<lfloor>a\<rfloor> - 1)"
    using nn by (simp add: power_int_def)
  also have "\<dots> = of_int (2 ^ nat (bitlen \<lfloor>a\<rfloor> - 1))" by simp
  also have "\<dots> \<le> of_int \<lfloor>a\<rfloor>" using b by (simp only: of_int_le_iff)
  also have "\<dots> \<le> a" by simp
  finally show ?thesis using True by (simp add: float_exponent_def)
next
  case False
  with assms have gt: "1 < 1 / a" by simp
  define c where "c = \<lceil>1 / a\<rceil> - 1"
  have cpos: "0 < c" using gt unfolding c_def by linarith
  from bitlen_bounds [OF cpos] have "c < 2 ^ nat (bitlen c)" by simp
  then have "\<lceil>1 / a\<rceil> \<le> 2 ^ nat (bitlen c)" unfolding c_def by linarith
  then have "of_int \<lceil>1 / a\<rceil> \<le> (of_int (2 ^ nat (bitlen c)) :: rat)" by (simp only: of_int_le_iff)
  then have "1 / a \<le> 2 ^ nat (bitlen c)" by (simp add: ceiling_le_iff)
  then have "1 \<le> 2 ^ nat (bitlen c) * a" using assms by (simp add: field_simps)
  then have "1 / 2 ^ nat (bitlen c) \<le> a" by (simp add: field_simps)
  moreover have "(2::rat) powi (- bitlen c) = 1 / 2 ^ nat (bitlen c)"
    using bitlen_nonneg [of c] by (simp add: power_int_def field_simps)
  ultimately show ?thesis using False by (simp add: float_exponent_def c_def)
qed

lemma float_exponent_upper:
  assumes "0 < a" and "a < 2 ^ n"
  shows "float_exponent a < int n"
proof (cases "1 \<le> a")
  case True
  have "of_int \<lfloor>a\<rfloor> \<le> a" by simp
  also note assms(2)
  finally have "of_int \<lfloor>a\<rfloor> < (of_int (2 ^ n) :: rat)" by simp
  then have "\<lfloor>a\<rfloor> < 2 ^ n" by (simp only: of_int_less_iff)
  then have "bitlen \<lfloor>a\<rfloor> \<le> int n" by (simp add: bitlen_le_iff_power)
  then show ?thesis using True by (simp add: float_exponent_def)
next
  case False
  with assms have gt: "1 < 1 / a" by simp
  have cpos: "0 < \<lceil>1 / a\<rceil> - 1" using gt by linarith
  then have "bitlen (\<lceil>1 / a\<rceil> - 1) \<noteq> 0" by (simp add: bitlen_eq_zero_iff)
  with bitlen_nonneg [of "\<lceil>1 / a\<rceil> - 1"] have "0 < bitlen (\<lceil>1 / a\<rceil> - 1)" by linarith
  then show ?thesis using False by (simp add: float_exponent_def)
qed

lemma fl_error: "\<bar>fl x - x\<bar> \<le> 2 powi (float_exponent \<bar>x\<bar> - 53)"
proof (cases "x = 0")
  case True
  then show ?thesis by (simp add: fl_def)
next
  case False
  define u :: rat where "u = 2 powi (float_exponent \<bar>x\<bar> - 52)"
  have upos: "0 < u" by (simp add: u_def)
  define q where "q = \<bar>x\<bar> / u"
  have x: "\<bar>x\<bar> = q * u" using upos by (simp add: q_def)
  have sx: "sgn x * \<bar>x\<bar> = x" by (rule mult_sgn_abs)
  have "fl x = sgn x * of_int (round_half_even q) * u"
    using False by (simp add: fl_def u_def q_def Let_def)
  then have "fl x - x = sgn x * of_int (round_half_even q) * u - sgn x * \<bar>x\<bar>"
    by (simp only: sx)
  also have "\<dots> = sgn x * (of_int (round_half_even q) * u - \<bar>x\<bar>)"
    by (simp add: algebra_simps)
  also have "\<dots> = sgn x * ((of_int (round_half_even q) - q) * u)"
    by (simp only: x) (simp add: algebra_simps)
  finally have "\<bar>fl x - x\<bar> = \<bar>sgn x\<bar> * (\<bar>of_int (round_half_even q) - q\<bar> * \<bar>u\<bar>)"
    by (simp only: abs_mult)
  also have "\<dots> = \<bar>of_int (round_half_even q) - q\<bar> * u"
    using False upos by (simp add: abs_sgn_eq)
  also have "\<dots> \<le> 1 / 2 * u"
    using round_half_even_error [of q] upos by (intro mult_right_mono) simp_all
  also have "\<dots> = 2 powi (float_exponent \<bar>x\<bar> - 53)"
    by (simp add: u_def power_int_diff)
  finally show ?thesis .
qed

lemma fl_error_small:
  assumes "\<bar>x\<bar> < 2 ^ 45"
  shows "\<bar>fl x - x\<bar> < 1 / 200"
proof (cases "x = 0")
  case True
  then show ?thesis by (simp add: fl_def)
next
  case False
  then have "0 < \<bar>x\<bar>" by simp
  from float_exponent_upper [OF this assms] have "float_exponent \<bar>x\<bar> - 53 \<le> - 9" by simp
  then have "(2::rat) powi (float_exponent \<bar>x\<bar> - 53) \<le> 2 powi (- 9)"
    by (intro power_int_increasing) simp_all
  also have "\<dots> < 1 / 200" by (simp add: power_int_minus_divide)
  finally show ?thesis using fl_error [of x] by linarith
qed

lemma py_round2_fixed:
  assumes "\<bar>x\<bar> \<le> 2 ^ 44"
  shows "py_round2 (py_round2 x) = py_round2 x"
proof -
  define k where "k = round_half_even (x * 100)"
  define d :: rat where "d = of_int k / 100"
  have "\<bar>of_int k - x * 100\<bar> \<le> 1 / 2"
    unfolding k_def by (rule round_half_even_error)
  then have near: "\<bar>d - x\<bar> \<le> 1 / 200" by (simp add: d_def abs_le_iff field_simps)
  have "\<bar>x\<bar> \<le> 17592186044416" using assms by simp
  with near have "\<bar>d\<bar> < 35184372088832" by linarith
  then have "\<bar>d\<bar> < 2 ^ 45" by simp
  from fl_error_small [OF this] have "\<bar>fl d - d\<bar> < 1 / 200" .
  then have "\<bar>fl d * 100 - of_int k\<bar> < 1 / 2" by (simp add: d_def abs_less_iff field_simps)
  from round_half_even_unique [OF this] have "round_half_even (fl d * 100) = k" .
  then show ?thesis by (simp add: py_round2_def k_def d_def)
qed

lemma fl_eight_percent: "fl (8 / 100) = 5764607523034235 / 72057594037927936"
  by code_simp

lemma tax_rate_bounds: "0 \<le> fl (8 / 100) \<and> fl (8 / 100) \<le> 1"
  by (simp only: fl_eight_percent) simp

lemma tax_product_bounded:
  assumes "0 \<le> s" and "s \<le> 10 ^ 9" and "0 \<le> r" and "r \<le> 1"
  shows "\<bar>float_mul s r\<bar> \<le> 2 ^ 44"
proof -
  define p where "p = s * r"
  have p0: "0 \<le> p" using assms(1,3) by (simp add: p_def)
  have "p \<le> s * 1" unfolding p_def using assms(1,4)
    by (intro mult_left_mono)
  with assms(2) have p1: "p \<le> 1000000000" by simp
  with p0 have "\<bar>p\<bar> < 2 ^ 45" by simp
  from fl_error_small [OF this] p0 p1 have "\<bar>fl p\<bar> \<le> 1000000001" by linarith
  then have "\<bar>fl p\<bar> \<le> 2 ^ 44" by simp
  then show ?thesis by (simp only: float_mul_def p_def)
qed

lemma py_round2_zero: "py_round2 0 = 0"
  by (simp add: py_round2_def round_half_even_def fl_def)

section \<open>Facts about order creation\<close>






subsection \<open>The order row is committed before its items\<close>



subsection \<open>The money fields of a created order\<close>

lemma order_total_identity:
  assumes "0 \<le> s" and "s \<le> 10 ^ 9" and "0 \<le> r" and "r \<le> 1"
    and "py_round2 s = s" and "py_round2 f = f"
  shows "t_total_amount (calculate_order_total s f r 0)
           = py_round2 (float_sub
               (float_add (float_add (t_subtotal (calculate_order_total s f r 0))
                                     (t_delivery_fee (calculate_order_total s f r 0)))
                          (t_tax_amount (calculate_order_total s f r 0)))
               (t_discount_amount (calculate_order_total s f r 0)))"
proof -
  have tax: "py_round2 (calculate_tax s r) = calculate_tax s r"
    unfolding calculate_tax_def
    by (rule py_round2_fixed [OF tax_product_bounded [OF assms(1-4)]])
  show ?thesis
    by (simp add: calculate_order_total_def Let_def tax assms(5,6) py_round2_zero)
qed

text \<open>
  C9, as amended. When the restaurant is found and the items are accepted, with subtotal \<open>s\<close>:
  if \<open>s\<close> is below the restaurant's minimum order, \<^verbatim>\<open>create_order\<close> raises
  \<^verbatim>\<open>ValidationException\<close> and nothing is persisted; otherwise, if \<open>s\<close> and the delivery
  fee are whole-cent amounts (rounding to two decimals leaves them as they are) and \<open>s\<close> is
  between 0 and \<open>10^9\<close>, the order is created and its persisted fields satisfy
  \<^verbatim>\<open>total_amount == round(subtotal + delivery_fee + tax_amount - discount_amount, 2)\<close>. For
  subtotal 25.00, delivery fee 2.99, tax rate 0.08 and discount 0,
  \<^verbatim>\<open>calculate_order_total\<close> yields tax 2.00 and total 29.99.
\<close>

theorem order_money_fields:
  assumes rest: "find (\<lambda>row. r_id row = restaurant_id \<and> r_is_active row) (st_restaurants db)
                   = Some restaurant"
    and items: "collect_items (st_menu_items db) restaurant_id items (0, []) = Inr (subtotal, order_items_data)"
  shows "(subtotal < r_minimum_order restaurant \<longrightarrow>
            create_order cd cdf num db_now commit1_ok commit2_ok db customer_id restaurant_id items
                addr lat lon instr
              = (Inl ValidationException, db))
       \<and> (\<not> subtotal < r_minimum_order restaurant \<and> 0 \<le> subtotal \<and> subtotal \<le> 10 ^ 9
            \<and> py_round2 subtotal = subtotal
            \<and> py_round2 (order_delivery_fee cd cdf restaurant lat lon)
                = order_delivery_fee cd cdf restaurant lat lon \<longrightarrow>
            (\<exists>order db'.
               create_order cd cdf num db_now True True db customer_id restaurant_id items
                   addr lat lon instr
                 = (Inr order, db')
               \<and> order \<in> set (st_orders db')
               \<and> total_matches_parts order))
       \<and> calculate_order_total 25 (fl (299 / 100)) (fl (8 / 100)) 0
           = \<lparr>t_subtotal = 25, t_delivery_fee = fl (299 / 100), t_tax_amount = 2,
              t_discount_amount = 0, t_total_amount = fl (2999 / 100)\<rparr>"
proof (intro conjI impI)
  assume "subtotal < r_minimum_order restaurant"
  then show "create_order cd cdf num db_now commit1_ok commit2_ok db customer_id restaurant_id items
                addr lat lon instr
              = (Inl ValidationException, db)"
    by (simp add: create_order_def create_order_first_commit_def rest items)
next
  assume h: "\<not> subtotal < r_minimum_order restaurant \<and> 0 \<le> subtotal \<and> subtotal \<le> 10 ^ 9
            \<and> py_round2 subtotal = subtotal
            \<and> py_round2 (order_delivery_fee cd cdf restaurant lat lon)
                = order_delivery_fee cd cdf restaurant lat lon"
  define fee where "fee = order_delivery_fee cd cdf restaurant lat lon"
  define totals where "totals = calculate_order_total subtotal fee (fl (8 / 100)) 0"
  from h have ident: "t_total_amount totals
           = py_round2 (float_sub
               (float_add (float_add (t_subtotal totals) (t_delivery_fee totals)) (t_tax_amount totals))
               (t_discount_amount totals))"
    unfolding totals_def
    by (intro order_total_identity) (simp_all only: fee_def tax_rate_bounds)
  obtain order db' where run: "create_order cd cdf num db_now True True db customer_id restaurant_id items
                   addr lat lon instr = (Inr order, db')"
    and mem: "order \<in> set (st_orders db')"
    and fields: "o_subtotal order = t_subtotal totals" "o_delivery_fee order = t_delivery_fee totals"
      "o_tax_amount order = t_tax_amount totals" "o_discount_amount order = t_discount_amount totals"
      "o_total_amount order = t_total_amount totals"
    using h unfolding totals_def fee_def
    by (simp add: create_order_def create_order_first_commit_def rest items Let_def)
  from ident fields have "total_matches_parts order"
    by (simp only: total_matches_parts_def)
  with run mem show "\<exists>order db'.
               create_order cd cdf num db_now True True db customer_id restaurant_id items
                   addr lat lon instr
                 = (Inr order, db')
               \<and> order \<in> set (st_orders db')
               \<and> total_matches_parts order"
    by blast
next
  show "calculate_order_total 25 (fl (299 / 100)) (fl (8 / 100)) 0
           = \<lparr>t_subtotal = 25, t_delivery_fee = fl (299 / 100), t_tax_amount = 2,
              t_discount_amount = 0, t_total_amount = fl (2999 / 100)\<rparr>"
    by code_simp
qed

theorem order_money_fields_witness:
  "create_order (\<lambda>lat1 lon1 lat2 lon2. 0) (\<lambda>distance base_fee. base_fee) ''ORD=20240101-A1B2C3''
       1000 True True store1 10 5 request_one ''1 Main Street'' None None None
     = (Inl ValidationException, store1)
   \<and> fst (create_order (\<lambda>lat1 lon1 lat2 lon2. 0) (\<lambda>distance base_fee. base_fee)
            ''ORD=20240101-A1B2C3'' 1000 True True store1 10 5 request1 ''1 Main Street''
            None None None)
       = Inr order2
   \<and> total_matches_parts order2"
proof -
  have rest: "find (\<lambda>row. r_id row = 5 \<and> r_is_active row) (st_restaurants store1) = Some restaurant5"
    by (simp add: store1_def restaurant5_def)
  have one: "collect_items (st_menu_items store1) 5 request_one (0, [])
      = Inr (25, [\<lparr>oi_id = 0, oi_order_id = 0, oi_menu_item_id = 100, oi_quantity = 1,
                    oi_unit_price = 25, oi_total_price = 25, oi_special_instructions = None\<rparr>])"
    by code_simp
  have two: "collect_items (st_menu_items store1) 5 request1 (0, [])
      = Inr (50, [\<lparr>oi_id = 0, oi_order_id = 0, oi_menu_item_id = 100, oi_quantity = 2,
                    oi_unit_price = 25, oi_total_price = 50, oi_special_instructions = None\<rparr>])"
    by code_simp
  have below: "(25::rat) < r_minimum_order restaurant5"
    by (simp add: restaurant5_def)
  have fee: "order_delivery_fee (\<lambda>lat1 lon1 lat2 lon2. 0) (\<lambda>distance base_fee. base_fee)
               restaurant5 None None = fl (299 / 100)"
    by (simp add: order_delivery_fee_def restaurant5_def)
  have cents: "py_round2 50 = 50" "py_round2 (fl (299 / 100)) = fl (299 / 100)"
    by code_simp+
  have enough: "\<not> (50::rat) < r_minimum_order restaurant5 \<and> (0::rat) \<le> 50 \<and> (50::rat) \<le> 10 ^ 9
      \<and> py_round2 50 = 50
      \<and> py_round2 (order_delivery_fee (\<lambda>lat1 lon1 lat2 lon2. 0) (\<lambda>distance base_fee. base_fee)
                      restaurant5 None None)
          = order_delivery_fee (\<lambda>lat1 lon1 lat2 lon2. 0) (\<lambda>distance base_fee. base_fee)
              restaurant5 None None"
    by (simp add: fee cents) (simp add: restaurant5_def)
  have created: "fst (create_order (\<lambda>lat1 lon1 lat2 lon2. 0) (\<lambda>distance base_fee. base_fee)
            ''ORD=20240101-A1B2C3'' 1000 True True store1 10 5 request1 ''1 Main Street''
            None None None)
       = Inr order2"
    by code_simp
  from order_money_fields [OF rest one] below
  have a: "create_order (\<lambda>lat1 lon1 lat2 lon2. 0) (\<lambda>distance base_fee. base_fee) ''ORD=20240101-A1B2C3''
       1000 True True store1 10 5 request_one ''1 Main Street'' None None None
     = (Inl ValidationException, store1)"
    by blast
  from order_money_fields [OF rest two] enough
  obtain order db' where
    "create_order (\<lambda>lat1 lon1 lat2 lon2. 0) (\<lambda>distance base_fee. base_fee) ''ORD=20240101-A1B2C3''
       1000 True True store1 10 5 request1 ''1 Main Street'' None None None = (Inr order, db')"
    and "total_matches_parts order"
    by blast
  with created have b: "total_matches_parts order2" by simp
  from a created b show ?thesis by blast
qed

text \<open>
  C9 as stated fails for amounts that are not whole cents. With one item priced 10.004 and a
  delivery fee of 2.994 the persisted fields are subtotal 10.00, delivery fee 2.99, tax 0.80,
  discount 0 and total 13.80, while 10.00 + 2.99 + 0.80 - 0 rounds to 13.79: the total is the
  rounded sum of the unrounded amounts, and the stored parts are rounded one by one. The
  difference is more than nine tenths of a cent.
\<close>

theorem total_differs_from_rounded_parts:
  "fst (create_order (\<lambda>lat1 lon1 lat2 lon2. 0) (\<lambda>distance base_fee. base_fee)
          ''ORD=20240101-D4E5F6'' 1000 True True store2 10 5 request_one ''1 Main Street''
          None None None)
     = Inr order4
   \<and> \<not> total_matches_parts order4
   \<and> 9 / 1000 < o_total_amount order4
        - (o_subtotal order4 + o_delivery_fee order4 + o_tax_amount order4 - o_discount_amount order4)"
  by code_simp

section \<open>Facts about the order jobs\<close>

subsection \<open>The auto-cancel job\<close>

text \<open>The job as written selects nothing: its query raises when executed, for every table and
  every clock value, and the job returns 0 with the orders and the queue as they were.\<close>

lemma auto_cancel_unpaid_order_selects_nothing:
  "auto_cancel_unpaid_order now utcnow db_now db queue = (0, db, queue)"
  by (simp add: auto_cancel_unpaid_order_def unpaid_orders_query_def bind_status_def)

text \<open>
  C6, evaluated where it fails. \<open>order1\<close> is PENDING, has no completed payment and was created
  twenty minutes before the job runs. The job returns 0, leaves the order PENDING with
  \<^verbatim>\<open>cancelled_at\<close> unset and queues no notification, where the claim has the order
  CANCELLED and one notification to its customer. The query compares the status column with the
  enum class, so it raises when executed and the job ends in its exception branch.
\<close>

theorem auto_cancel_leaves_old_pending_order:
  "o_status order1 = PENDING
   \<and> o_created_at order1 + 20 * 60 = 2200
   \<and> auto_cancel_unpaid_order 2200 2200 2201 [order1] [] = (0, [order1], [])"
  by (simp add: auto_cancel_unpaid_order_def unpaid_orders_query_def bind_status_def order1_def)

subsection \<open>The order status job\<close>

text \<open>The message of the job is no JSON value, so the first \<^verbatim>\<open>send_task\<close> of the
  notification block raises and nothing is queued, whoever the recipient is.\<close>

lemma order_status_notification_not_serialisable:
  "\<not> json_serialisable (order_status_notification order_id old_status new_status now)"
  by (simp add: order_status_notification_def)

lemma notify_order_parties_raises:
  "notify_order_parties restaurant (order_status_notification order_id old_status new_status now) queue
     = Inl EncodeError"
  by (simp add: notify_order_parties_def send_task_def order_status_notification_def)

text \<open>The job as written never completes: the lookup of the order fails, or
  \<^verbatim>\<open>OrderStatus[new_status]\<close> raises, or \<^verbatim>\<open>OrderStatus.PREPARING.values\<close> does, each
  before the commit. It returns False, and the orders and the queue are what they were.\<close>

lemma update_order_status_job_never_completes:
  "update_order_status_job restaurants db queue now db_now order_id new_status = (False, db, queue)"
  by (simp add: update_order_status_job_def stamp_timestamp_job_def enum_member_values_def
      split: option.splits)

text \<open>
  C8, evaluated where it fails. Order 1 is PENDING, has customer 10 and delivery partner 30, and
  its restaurant is owned by user 20. The job is run for the transition to CONFIRMED, with the
  status as its callers send it (\<^verbatim>\<open>'confirmed'\<close>, the value) and as the lookup by name needs
  it (\<^verbatim>\<open>'CONFIRMED'\<close>). Both runs return False, leave the order as it was and queue nothing:
  no notification to the customer, the owner or the delivery partner, and no
  estimated-delivery-time job, where the claim has all four. The notification block, were it
  reached, raises at its first \<^verbatim>\<open>send_task\<close> and queues nothing either.
\<close>

theorem status_job_queues_nothing:
  "o_status order1 = PENDING
   \<and> o_customer_id order1 = 10
   \<and> o_delivery_partner_id order1 = Some 30
   \<and> r_owner_id restaurant5 = 20
   \<and> update_order_status_job [restaurant5] [order1] [] 2000 2001 1 ''confirmed'' = (False, [order1], [])
   \<and> update_order_status_job [restaurant5] [order1] [] 2000 2001 1 ''CONFIRMED'' = (False, [order1], [])
   \<and> notify_order_parties restaurant5 (order_status_notification 1 PENDING ''CONFIRMED'' 2000) []
       = Inl EncodeError"
proof -
  have sample: "o_status order1 = PENDING \<and> o_customer_id order1 = 10
      \<and> o_delivery_partner_id order1 = Some 30 \<and> r_owner_id restaurant5 = 20"
    by (simp add: order1_def restaurant5_def)
  have by_value:
    "update_order_status_job [restaurant5] [order1] [] 2000 2001 1 ''confirmed'' = (False, [order1], [])"
    by (simp add: update_order_status_job_def status_by_name_def order1_def)
  have by_name:
    "update_order_status_job [restaurant5] [order1] [] 2000 2001 1 ''CONFIRMED'' = (False, [order1], [])"
    by (simp add: update_order_status_job_def status_by_name_def stamp_timestamp_job_def
        enum_member_values_def order1_def)
  have block:
    "notify_order_parties restaurant5 (order_status_notification 1 PENDING ''CONFIRMED'' 2000) []
       = Inl EncodeError"
    by (simp add: notify_order_parties_def send_task_def order_status_notification_def)
  from sample by_value by_name block show ?thesis by blast
qed

end
